theory Spec2Isabelle
  imports Complex_Main "HOL-Library.Log_Nat" "HOL-Library.Sublist"
begin

section \<open>ECMAScript numbers\<close>

text \<open>
  \<^verbatim>\<open>server.js\<close> computes with JavaScript Numbers, that is IEEE-754 binary64 values.
  A finite Number is modelled by the rational it denotes; every arithmetic operation
  computes the exact rational result and rounds it to the nearest binary64 value, ties
  to the even significand (\<open>fl\<close>). The model has one zero: the sign of zero is not
  tracked. It is observable only through a division by zero, and the divisions of
  \<^verbatim>\<open>server.js\<close> either have the divisor 100 or a divisor written as a literal.
\<close>

datatype jsnum = Fin rat | PosInf | NegInf | NaN

definition round_half_even :: "rat \<Rightarrow> int" where
  "round_half_even y = (let f = \<lfloor>y\<rfloor>; d = y - of_int f in
     if d < 1/2 then f else if 1/2 < d then f + 1 else if even f then f else f + 1)"

text \<open>\<open>ilog2 x\<close> is the integer \<open>k\<close> with \<open>2^k \<le> x < 2^(k+1)\<close>, for \<open>0 < x\<close>.\<close>

definition ilog2 :: "rat \<Rightarrow> int" where
  "ilog2 x = (if 1 \<le> x then bitlen \<lfloor>x\<rfloor> - 1
     else let k = bitlen \<lfloor>1 / x\<rfloor> - 1 in if 1 / x = 2 ^ nat k then - k else - k - 1)"

definition pow2 :: "int \<Rightarrow> rat" where
  "pow2 e = (if 0 \<le> e then 2 ^ nat e else 1 / 2 ^ nat (- e))"

text \<open>
  Rounding to binary64: a significand of 53 bits, the least exponent \<open>-1074\<close> (so that
  small values round on the subnormal grid), and overflow to an infinity from
  \<open>2^1024\<close> on.
\<close>

definition fl :: "rat \<Rightarrow> jsnum" where
  "fl x = (if x = 0 then Fin 0 else
     let a = \<bar>x\<bar>; e = max (ilog2 a - 52) (- 1074);
         m = round_half_even (a / pow2 e)
     in if 971 < e \<or> (e = 971 \<and> m = 9007199254740992)
        then (if 0 < x then PosInf else NegInf)
        else Fin (sgn x * of_int m * pow2 e))"

text \<open>The operators \<^verbatim>\<open>-\<close>, \<^verbatim>\<open>*\<close> and \<^verbatim>\<open>/\<close> on Numbers.\<close>

fun js_sub :: "jsnum \<Rightarrow> jsnum \<Rightarrow> jsnum" where
  "js_sub NaN _ = NaN"
| "js_sub _ NaN = NaN"
| "js_sub (Fin x) (Fin y) = fl (x - y)"
| "js_sub (Fin x) PosInf = NegInf"
| "js_sub (Fin x) NegInf = PosInf"
| "js_sub PosInf PosInf = NaN"
| "js_sub PosInf _ = PosInf"
| "js_sub NegInf NegInf = NaN"
| "js_sub NegInf _ = NegInf"

fun js_mul :: "jsnum \<Rightarrow> jsnum \<Rightarrow> jsnum" where
  "js_mul NaN _ = NaN"
| "js_mul _ NaN = NaN"
| "js_mul (Fin x) (Fin y) = fl (x * y)"
| "js_mul (Fin x) PosInf = (if x = 0 then NaN else if 0 < x then PosInf else NegInf)"
| "js_mul (Fin x) NegInf = (if x = 0 then NaN else if 0 < x then NegInf else PosInf)"
| "js_mul PosInf (Fin y) = (if y = 0 then NaN else if 0 < y then PosInf else NegInf)"
| "js_mul NegInf (Fin y) = (if y = 0 then NaN else if 0 < y then NegInf else PosInf)"
| "js_mul PosInf PosInf = PosInf"
| "js_mul PosInf NegInf = NegInf"
| "js_mul NegInf PosInf = NegInf"
| "js_mul NegInf NegInf = PosInf"

fun js_div :: "jsnum \<Rightarrow> jsnum \<Rightarrow> jsnum" where
  "js_div NaN _ = NaN"
| "js_div _ NaN = NaN"
| "js_div (Fin x) (Fin y) =
     (if y = 0 then (if x = 0 then NaN else if 0 < x then PosInf else NegInf)
      else fl (x / y))"
| "js_div (Fin x) _ = Fin 0"
| "js_div PosInf (Fin y) = (if 0 \<le> y then PosInf else NegInf)"
| "js_div NegInf (Fin y) = (if 0 \<le> y then NegInf else PosInf)"
| "js_div _ _ = NaN"

fun Math_abs :: "jsnum \<Rightarrow> jsnum" where
  "Math_abs (Fin x) = Fin \<bar>x\<bar>"
| "Math_abs PosInf = PosInf"
| "Math_abs NegInf = PosInf"
| "Math_abs NaN = NaN"

text \<open>
  \<^verbatim>\<open>Math.round\<close> returns the nearest integer, the larger one at a tie;
  \<^verbatim>\<open>Math.floor\<close> the greatest integer below. Both are exact on binary64 values.
\<close>

fun Math_round :: "jsnum \<Rightarrow> jsnum" where
  "Math_round (Fin x) = Fin (of_int \<lfloor>x + 1/2\<rfloor>)"
| "Math_round n = n"

fun Math_floor :: "jsnum \<Rightarrow> jsnum" where
  "Math_floor (Fin x) = Fin (of_int \<lfloor>x\<rfloor>)"
| "Math_floor n = n"

text \<open>The comparison \<^verbatim>\<open><=\<close>, strict equality \<^verbatim>\<open>===\<close> and truthiness of Numbers.\<close>

fun js_le :: "jsnum \<Rightarrow> jsnum \<Rightarrow> bool" where
  "js_le NaN _ = False"
| "js_le _ NaN = False"
| "js_le (Fin x) (Fin y) = (x \<le> y)"
| "js_le NegInf _ = True"
| "js_le _ PosInf = True"
| "js_le _ _ = False"

fun js_seq :: "jsnum \<Rightarrow> jsnum \<Rightarrow> bool" where
  "js_seq NaN _ = False"
| "js_seq _ NaN = False"
| "js_seq a b = (a = b)"

fun truthy :: "jsnum \<Rightarrow> bool" where
  "truthy NaN = False"
| "truthy (Fin x) = (x \<noteq> 0)"
| "truthy _ = True"

section \<open>ECMAScript strings\<close>

text \<open>
  A string is a list of code units; the case conversions are modelled on the ASCII
  letters, where they agree with ECMAScript, and leave every other unit as it is.
\<close>

definition lower_char :: "char \<Rightarrow> char" where
  "lower_char c = (let n = (of_char c :: nat) in
     if 65 \<le> n \<and> n \<le> 90 then char_of (n + 32) else c)"

definition upper_char :: "char \<Rightarrow> char" where
  "upper_char c = (let n = (of_char c :: nat) in
     if 97 \<le> n \<and> n \<le> 122 then char_of (n - 32) else c)"

definition toLowerCase :: "string \<Rightarrow> string" where
  "toLowerCase s = map lower_char s"

definition toUpperCase :: "string \<Rightarrow> string" where
  "toUpperCase s = map upper_char s"

text \<open>\<^verbatim>\<open>s.includes(t)\<close>: \<open>t\<close> occurs in \<open>s\<close> as a contiguous substring.\<close>

fun includes_str :: "string \<Rightarrow> string \<Rightarrow> bool" where
  "includes_str [] t = (t = [])"
| "includes_str (c # s) t = (prefix t (c # s) \<or> includes_str s t)"

subsection \<open>\<^verbatim>\<open>parseInt\<close> and \<^verbatim>\<open>parseFloat\<close>\<close>

definition is_ws :: "char \<Rightarrow> bool" where
  "is_ws c = ((of_char c :: nat) \<in> {9, 10, 11, 12, 13, 32, 160})"

definition is_digit :: "char \<Rightarrow> bool" where
  "is_digit c = (let n = (of_char c :: nat) in 48 \<le> n \<and> n \<le> 57)"

definition is_hex_digit :: "char \<Rightarrow> bool" where
  "is_hex_digit c = (let n = (of_char c :: nat) in
     (48 \<le> n \<and> n \<le> 57) \<or> (65 \<le> n \<and> n \<le> 70) \<or> (97 \<le> n \<and> n \<le> 102))"

definition digit_val :: "char \<Rightarrow> int" where
  "digit_val c = (let n = (of_char c :: int) in
     if n \<le> 57 then n - 48 else if n \<le> 70 then n - 55 else n - 87)"

definition digits_val :: "int \<Rightarrow> string \<Rightarrow> int" where
  "digits_val radix ds = foldl (\<lambda>a c. a * radix + digit_val c) 0 ds"

definition strip_sign :: "string \<Rightarrow> bool \<times> string" where
  "strip_sign s = (case s of
       [] \<Rightarrow> (False, [])
     | c # t \<Rightarrow> if c = CHR ''-'' then (True, t) else if c = CHR ''+'' then (False, t) else (False, s))"

text \<open>
  \<^verbatim>\<open>parseInt(s)\<close> with no radix: leading white space and a sign are skipped, the
  prefix \<^verbatim>\<open>0x\<close> selects radix 16, and the longest run of digits is read; no digit
  gives \<^verbatim>\<open>NaN\<close>. The integer read is rounded to a Number. (ECMAScript lets an engine
  zero the decimal digits after the twentieth; the model reads them all.)
\<close>

definition parseInt_str :: "string \<Rightarrow> jsnum" where
  "parseInt_str s = (let (neg, u) = strip_sign (dropWhile is_ws s);
       hex = (prefix ''0x'' u \<or> prefix ''0X'' u);
       v = (if hex then drop 2 u else u);
       ds = takeWhile (if hex then is_hex_digit else is_digit) v
     in if ds = [] then NaN
        else let n = digits_val (if hex then 16 else 10) ds
             in fl (of_int (if neg then - n else n)))"

definition pow10 :: "int \<Rightarrow> rat" where
  "pow10 e = (if 0 \<le> e then 10 ^ nat e else 1 / 10 ^ nat (- e))"

definition exponent_part :: "string \<Rightarrow> int" where
  "exponent_part r = (case r of
       [] \<Rightarrow> 0
     | c # t \<Rightarrow>
         if c = CHR ''e'' \<or> c = CHR ''E''
         then (let (eneg, t2) = strip_sign t; ed = takeWhile is_digit t2
               in if ed = [] then 0
                  else if eneg then - digits_val 10 ed else digits_val 10 ed)
         else 0)"

text \<open>
  \<^verbatim>\<open>parseFloat(s)\<close>: the longest prefix, after white space, that is a decimal
  literal (sign, \<^verbatim>\<open>Infinity\<close> or digits with an optional fraction and exponent),
  rounded to a Number; \<^verbatim>\<open>NaN\<close> when there is none.
\<close>

definition parseFloat_str :: "string \<Rightarrow> jsnum" where
  "parseFloat_str s = (let (neg, u) = strip_sign (dropWhile is_ws s)
     in if prefix ''Infinity'' u then (if neg then NegInf else PosInf)
        else let ip = takeWhile is_digit u; r1 = dropWhile is_digit u;
                 dot = (case r1 of [] \<Rightarrow> False | c # t \<Rightarrow> c = CHR ''.'');
                 fp = (if dot then takeWhile is_digit (tl r1) else []);
                 r2 = (if dot then dropWhile is_digit (tl r1) else r1)
             in if ip = [] \<and> fp = [] then NaN
                else let v = of_int (digits_val 10 (ip @ fp))
                             * pow10 (exponent_part r2 - int (length fp))
                     in fl (if neg then - v else v))"

text \<open>
  The probe fields that \<^verbatim>\<open>server.js\<close> passes to \<^verbatim>\<open>parseInt\<close> and
  \<^verbatim>\<open>parseFloat\<close> are strings or absent; an absent field is \<^verbatim>\<open>undefined\<close>, which
  both functions first convert to the string \<^verbatim>\<open>"undefined"\<close>.
\<close>

definition ToString_field :: "string option \<Rightarrow> string" where
  "ToString_field f = (case f of None \<Rightarrow> ''undefined'' | Some s \<Rightarrow> s)"

definition parseInt :: "string option \<Rightarrow> jsnum" where
  "parseInt f = parseInt_str (ToString_field f)"

definition parseFloat :: "string option \<Rightarrow> jsnum" where
  "parseFloat f = parseFloat_str (ToString_field f)"

section \<open>\<^verbatim>\<open>eval\<close>\<close>

text \<open>
  \<^verbatim>\<open>analyzeVideoWithFFmpeg\<close> passes the probe's frame-rate string to \<^verbatim>\<open>eval\<close>,
  which runs it as a JavaScript program with access to the globals of the process.
  What the program reads from its environment is made explicit: the \<open>world\<close> holds
  the clock reading that \<^verbatim>\<open>Date.now()\<close> returns (milliseconds since the epoch).

  \<open>js_eval\<close> gives the completion of \<^verbatim>\<open>eval(s)\<close> on a fragment of the language:
  a decimal integer literal without a leading zero, the quotient of two such literals,
  a literal followed by a lone \<^verbatim>\<open>/\<close> (a syntax error), and the call
  \<^verbatim>\<open>Date.now()\<close>. On every other string the result is \<open>None\<close>: the model does not
  say what \<^verbatim>\<open>eval\<close> does there.
\<close>

record world =
  now :: int

datatype completion = Returns jsnum | Throws

definition is_literal :: "string \<Rightarrow> bool" where
  "is_literal s = (case s of
       [] \<Rightarrow> False
     | c # t \<Rightarrow> list_all is_digit s \<and> (t = [] \<or> c \<noteq> CHR ''0''))"

definition literal_value :: "string \<Rightarrow> jsnum" where
  "literal_value s = fl (of_int (digits_val 10 s))"

definition js_eval :: "world \<Rightarrow> string \<Rightarrow> completion option" where
  "js_eval w s =
     (if s = ''Date.now()'' then Some (Returns (fl (of_int (now w))))
      else let a = takeWhile (\<lambda>c. c \<noteq> CHR ''/'') s; r = dropWhile (\<lambda>c. c \<noteq> CHR ''/'') s
           in if \<not> is_literal a then None
              else (case r of
                  [] \<Rightarrow> Some (Returns (literal_value a))
                | _ # b \<Rightarrow>
                    if b = [] then Some Throws
                    else if is_literal b
                    then Some (Returns (js_div (literal_value a) (literal_value b)))
                    else None))"

section \<open>Probe output and its normalisation\<close>

text \<open>
  The metadata object handed to the \<^verbatim>\<open>ffprobe\<close> callback. Only the fields that
  \<^verbatim>\<open>server.js\<close> reads are kept. Fields whose names the normalised record uses too
  carry the suffix \<open>_raw\<close>.
\<close>

record stream =
  codec_type :: string
  width_raw :: jsnum
  height_raw :: jsnum
  r_frame_rate :: string
  nb_frames :: "string option"
  codec_name :: string
  profile_raw :: "string option"

record format_section =
  duration_raw :: "string option"
  bit_rate :: "string option"
  format_name :: string

record metadata =
  streams :: "stream list"
  format_raw :: format_section

datatype probe = ProbeFailed string | Probed metadata

text \<open>
  The rejections of the promise: the probe's own failure with its message, no stream
  of type \<^verbatim>\<open>video\<close>, and an exception caught while the fields are read (the
  engine's message is not modelled).
\<close>

datatype error = FFprobeError string | NoVideoStream | ParseError

record videoInfo =
  duration :: jsnum
  width :: jsnum
  height :: jsnum
  frameRate :: jsnum
  frameCount :: jsnum
  codec :: string
  profile :: "string option"
  bitRate :: "jsnum option"
  format :: string

text \<open>
  The result is \<open>None\<close> exactly when the frame-rate string lies outside the fragment
  of \<open>js_eval\<close>; otherwise it is the rejection or the resolved value of the promise.
\<close>

definition analyzeVideoWithFFmpeg :: "world \<Rightarrow> probe \<Rightarrow> (error + videoInfo) option" where
  "analyzeVideoWithFFmpeg w p = (case p of
       ProbeFailed msg \<Rightarrow> Some (Inl (FFprobeError msg))
     | Probed md \<Rightarrow>
        (case find (\<lambda>s. codec_type s = ''video'') (streams md) of
           None \<Rightarrow> Some (Inl NoVideoStream)
         | Some videoStream \<Rightarrow>
            (let dur = parseFloat (duration_raw (format_raw md)) in
             case js_eval w (r_frame_rate videoStream) of
               None \<Rightarrow> None
             | Some Throws \<Rightarrow> Some (Inl ParseError)
             | Some (Returns fr) \<Rightarrow>
                (let n = parseInt (nb_frames videoStream);
                     fc = (if truthy n then n else Math_round (js_mul dur fr));
                     b = parseInt (bit_rate (format_raw md))
                 in Some (Inr \<lparr>
                      duration = js_div (Math_round (js_mul dur (Fin 100))) (Fin 100),
                      width = width_raw videoStream,
                      height = height_raw videoStream,
                      frameRate = js_div (Math_round (js_mul fr (Fin 100))) (Fin 100),
                      frameCount = fc,
                      codec = codec_name videoStream,
                      profile = (case profile_raw videoStream of
                                   None \<Rightarrow> None
                                 | Some pr \<Rightarrow> if pr = [] then None else Some pr),
                      bitRate = (if truthy b then Some b else None),
                      format = format_name (format_raw md) \<rparr>)))))"

section \<open>Validation against the contest criteria\<close>

text \<open>
  Three library functions are taken as parameters: \<^verbatim>\<open>Math.log\<close> and
  \<^verbatim>\<open>Math.pow\<close>, whose results ECMAScript leaves to the engine's approximation, and
  the conversion of a Number to a string.
\<close>

record jsrt =
  Math_log :: "jsnum \<Rightarrow> jsnum"
  Math_pow :: "jsnum \<Rightarrow> jsnum \<Rightarrow> jsnum"
  Number_toString :: "jsnum \<Rightarrow> string"

fun dec_digits :: "nat \<Rightarrow> string" where
  "dec_digits n = (if n < 10 then [char_of (48 + n)]
     else dec_digits (n div 10) @ [char_of (48 + n mod 10)])"

text \<open>\<^verbatim>\<open>x.toFixed(2)\<close>.\<close>

definition toFixed2 :: "jsrt \<Rightarrow> jsnum \<Rightarrow> string" where
  "toFixed2 rt x = (case x of
       Fin r \<Rightarrow>
         if 10 ^ 21 \<le> \<bar>r\<bar> then Number_toString rt x
         else let m = dec_digits (nat \<lfloor>\<bar>r\<bar> * 100 + 1/2\<rfloor>);
                  m' = (if length m \<le> 2 then replicate (3 - length m) (CHR ''0'') @ m else m);
                  k = length m'
              in (if r < 0 then ''-'' else []) @ take (k - 2) m' @ ''.'' @ drop (k - 2) m'
     | _ \<Rightarrow> Number_toString rt x)"

text \<open>\<^verbatim>\<open>xs[i]\<close> for a Number \<open>i\<close>: an element when \<open>i\<close> is an index of the array.\<close>

definition array_get :: "'a list \<Rightarrow> jsnum \<Rightarrow> 'a option" where
  "array_get xs i = (case i of
       Fin r \<Rightarrow> if r = of_int \<lfloor>r\<rfloor> \<and> 0 \<le> r \<and> nat \<lfloor>r\<rfloor> < length xs
                then Some (xs ! nat \<lfloor>r\<rfloor>) else None
     | _ \<Rightarrow> None)"

definition formatFileSize :: "jsrt \<Rightarrow> jsnum \<Rightarrow> string" where
  "formatFileSize rt bytes =
     (if js_seq bytes (Fin 0) then ''0 Bytes''
      else let k = Fin 1024;
               sizes = [''Bytes'', ''KB'', ''MB'', ''GB''];
               i = Math_floor (js_div (Math_log rt bytes) (Math_log rt k))
           in Number_toString rt (parseFloat_str (toFixed2 rt (js_div bytes (Math_pow rt k i))))
              @ '' '' @ (case array_get sizes i of None \<Rightarrow> ''undefined'' | Some u \<Rightarrow> u))"

definition getFormatName :: "string \<Rightarrow> string \<Rightarrow> string" where
  "getFormatName fmt mime =
     (if includes_str (toLowerCase fmt) ''mp4'' \<or> includes_str mime ''mp4'' then ''MP4''
      else if includes_str (toLowerCase fmt) ''mov'' \<or> includes_str (toLowerCase fmt) ''quicktime''
              \<or> includes_str mime ''quicktime'' then ''MOV''
      else toUpperCase fmt)"

definition codecMap :: "(string \<times> string) list" where
  "codecMap = [(''h264'', ''H.264''), (''avc'', ''H.264''), (''avc1'', ''H.264''),
               (''hevc'', ''H.265''), (''h265'', ''H.265''), (''hev1'', ''H.265''),
               (''hvc1'', ''H.265'')]"

definition getCodecName :: "string \<Rightarrow> string" where
  "getCodecName cd = (let lowerCodec = toLowerCase cd in
     case find (\<lambda>(key, v). includes_str lowerCodec key) codecMap of
       Some (key, v) \<Rightarrow> v
     | None \<Rightarrow> toUpperCase cd)"

record resolution_spec =
  res_width :: jsnum
  res_height :: jsnum

record criteria_spec =
  resolutions :: "resolution_spec list"
  frameRate_crit :: jsnum
  frameCount_crit :: jsnum
  duration_crit :: jsnum
  maxFileSize :: jsnum
  allowedFormats :: "string list"
  allowedCodecs :: "string list"

definition criteria :: criteria_spec where
  "criteria = \<lparr>
     resolutions = [\<lparr>res_width = Fin 1920, res_height = Fin 810\<rparr>,
                    \<lparr>res_width = Fin 3840, res_height = Fin 1620\<rparr>],
     frameRate_crit = Fin 24,
     frameCount_crit = Fin 144,
     duration_crit = Fin 6,
     maxFileSize = js_mul (js_mul (Fin 100) (Fin 1024)) (Fin 1024),
     allowedFormats = [''mp4'', ''mov'', ''quicktime''],
     allowedCodecs = [''h264'', ''hevc'', ''h265''] \<rparr>"

text \<open>
  The object that the route passes on: the normalised record extended with the
  upload's name, size and MIME type.
\<close>

record fullVideoInfo = videoInfo +
  fileName :: string
  fileSize :: jsnum
  mimeType :: string

text \<open>
  The \<^verbatim>\<open>value\<close> of a criterion is whatever JavaScript value the code stores there:
  a string or a Number.
\<close>

datatype jsval = JStr string | JNum jsnum

record criterion =
  valid :: bool
  value' :: jsval
  requirement :: string
  exact :: bool

record results =
  fileSize_result :: criterion
  format_result :: criterion
  resolution_result :: criterion
  frameRate_result :: criterion
  frameCount_result :: criterion
  codec_result :: criterion
  overall :: bool

definition times_sign :: string where
  "times_sign = [char_of (215 :: nat)]"

definition validateVideoSpecs :: "jsrt \<Rightarrow> fullVideoInfo \<Rightarrow> results" where
  "validateVideoSpecs rt v =
    (let r_fileSize = \<lparr>
           valid = js_le (fileSize v) (maxFileSize criteria),
           value' = JStr (formatFileSize rt (fileSize v)),
           requirement = ''< 100MB'',
           exact = True \<rparr>;
         r_format = \<lparr>
           valid = list_ex (\<lambda>fmt. includes_str (toLowerCase (format v)) fmt
                                  \<or> includes_str (mimeType v) fmt) (allowedFormats criteria),
           value' = JStr (getFormatName (format v) (mimeType v)),
           requirement = ''MP4 or MOV'',
           exact = True \<rparr>;
         r_resolution = \<lparr>
           valid = list_ex (\<lambda>res. js_seq (res_width res) (width v)
                                  \<and> js_seq (res_height res) (height v)) (resolutions criteria),
           value' = JStr (Number_toString rt (width v) @ times_sign
                          @ Number_toString rt (height v)),
           requirement = ''1920'' @ times_sign @ ''810 or 3840'' @ times_sign @ ''1620'',
           exact = True \<rparr>;
         r_frameRate = \<lparr>
           valid = js_le (Math_abs (js_sub (frameRate v) (frameRate_crit criteria))) (fl (1/10)),
           value' = JStr (Number_toString rt (frameRate v) @ '' fps''),
           requirement = ''24 fps'',
           exact = True \<rparr>;
         r_frameCount = \<lparr>
           valid = js_le (Math_abs (js_sub (frameCount v) (frameCount_crit criteria))) (Fin 2),
           value' = JNum (frameCount v),
           requirement = ''144 frames'',
           exact = True \<rparr>;
         r_codec = \<lparr>
           valid = list_ex (\<lambda>cd.
                      let lowerVideoCodec = toLowerCase (codec v);
                          lowerCriteriaCodec = toLowerCase cd
                      in includes_str lowerVideoCodec lowerCriteriaCodec
                         \<or> includes_str lowerVideoCodec ''avc''
                         \<or> includes_str lowerVideoCodec ''hevc'') (allowedCodecs criteria),
           value' = JStr (getCodecName (codec v)),
           requirement = ''H.264 or H.265'',
           exact = True \<rparr>
     in \<lparr> fileSize_result = r_fileSize,
          format_result = r_format,
          resolution_result = r_resolution,
          frameRate_result = r_frameRate,
          frameCount_result = r_frameCount,
          codec_result = r_codec,
          overall = list_all valid
            [r_fileSize, r_format, r_resolution, r_frameRate, r_frameCount, r_codec] \<rparr>)"

text \<open>
  The body of the route \<^verbatim>\<open>/analyze-video\<close> once the upload is on disk: normalise the
  probe output, attach the upload's fields, validate. It answers with both records.
\<close>

record upload =
  originalname :: string
  size_bytes :: jsnum
  mimetype :: string

definition analyze_video ::
    "world \<Rightarrow> jsrt \<Rightarrow> upload \<Rightarrow> probe \<Rightarrow> (error + fullVideoInfo \<times> results) option" where
  "analyze_video w rt file p = (case analyzeVideoWithFFmpeg w p of
       None \<Rightarrow> None
     | Some (Inl e) \<Rightarrow> Some (Inl e)
     | Some (Inr vi) \<Rightarrow>
         (let fullInfo = \<lparr> duration = duration vi, width = width vi, height = height vi,
                frameRate = frameRate vi, frameCount = frameCount vi, codec = codec vi,
                profile = profile vi, bitRate = bitRate vi, format = format vi,
                fileName = originalname file, fileSize = size_bytes file,
                mimeType = mimetype file \<rparr>
          in Some (Inr (fullInfo, validateVideoSpecs rt fullInfo))))"

section \<open>The claims' readings and sample inputs\<close>

text \<open>\<^verbatim>\<open>typeof x === 'string'\<close>.\<close>

fun is_string :: "jsval \<Rightarrow> bool" where
  "is_string (JStr _) = True"
| "is_string (JNum _) = False"

text \<open>
  The format rule as the specification words it, with both fields matched without
  regard to case.
\<close>

definition claimed_format_valid :: "string \<Rightarrow> string \<Rightarrow> bool" where
  "claimed_format_valid fmt mime =
     list_ex (\<lambda>tok. includes_str (toLowerCase fmt) tok \<or> includes_str (toLowerCase mime) tok)
       [''mp4'', ''mov'', ''quicktime'']"

text \<open>
  The frame count as the specification words it: the explicit count when it is present
  and greater than 0, the rounded product otherwise.
\<close>

definition claimed_frameCount :: "jsnum \<Rightarrow> jsnum \<Rightarrow> jsnum \<Rightarrow> jsnum" where
  "claimed_frameCount explicit dur fr =
     (if (case explicit of Fin c \<Rightarrow> 0 < c | PosInf \<Rightarrow> True | _ \<Rightarrow> False) then explicit
      else Math_round (js_mul dur fr))"

text \<open>
  A runtime for closed statements. None of the properties below depends on what the
  three library functions return.
\<close>

definition rt_stub :: jsrt where
  "rt_stub = \<lparr> Math_log = (\<lambda>_. NaN), Math_pow = (\<lambda>_ _. NaN),
               Number_toString = (\<lambda>_. []) \<rparr>"

text \<open>
  Probe output for a six-second clip of 1920 by 810 pixels with an audio and a video
  stream; the frame-rate string and the frame count of the video stream are left open.
\<close>

definition sample_stream :: "string \<Rightarrow> string option \<Rightarrow> stream" where
  "sample_stream rate frames =
     \<lparr> codec_type = ''video'', width_raw = Fin 1920, height_raw = Fin 810,
        r_frame_rate = rate, nb_frames = frames, codec_name = ''h264'',
        profile_raw = Some ''High'' \<rparr>"

definition sample_metadata :: "string \<Rightarrow> string option \<Rightarrow> metadata" where
  "sample_metadata rate frames = \<lparr>
     streams = [
       \<lparr> codec_type = ''audio'', width_raw = NaN, height_raw = NaN, r_frame_rate = ''0/0'',
          nb_frames = None, codec_name = ''aac'', profile_raw = Some ''LC'' \<rparr>,
       sample_stream rate frames],
     format_raw = \<lparr> duration_raw = Some ''6.000000'', bit_rate = Some ''8000000'',
                    format_name = ''mov,mp4,m4a,3gp,3g2,mj2'' \<rparr> \<rparr>"

text \<open>The normalised record expected for it, given the frame rate and frame count.\<close>

definition sample_info :: "jsnum \<Rightarrow> jsnum \<Rightarrow> videoInfo" where
  "sample_info rate frames = \<lparr> duration = Fin 6, width = Fin 1920, height = Fin 810,
     frameRate = rate, frameCount = frames, codec = ''h264'', profile = Some ''High'',
     bitRate = Some (Fin 8000000), format = ''mov,mp4,m4a,3gp,3g2,mj2'' \<rparr>"

text \<open>A record that meets every rule but, depending on \<open>bytes\<close>, the size limit.\<close>

definition sample_full :: "jsnum \<Rightarrow> fullVideoInfo" where
  "sample_full bytes = \<lparr> duration = Fin 6, width = Fin 1920, height = Fin 810,
     frameRate = Fin 24, frameCount = Fin 144, codec = ''h264'', profile = Some ''High'',
     bitRate = Some (Fin 8000000), format = ''mov,mp4,m4a,3gp,3g2,mj2'',
     fileName = ''clip.mp4'', fileSize = bytes, mimeType = ''video/mp4'' \<rparr>"

text \<open>An AVI container uploaded with its MIME type in capitals.\<close>

definition upper_mime :: fullVideoInfo where
  "upper_mime = (sample_full (Fin 52428800)) \<lparr> format := ''avi'', mimeType := ''VIDEO/MP4'' \<rparr>"

text \<open>The same record uploaded as QuickTime.\<close>

definition quicktime_upload :: fullVideoInfo where
  "quicktime_upload = (sample_full (Fin 52428800)) \<lparr> mimeType := ''video/quicktime'' \<rparr>"

section \<open>Facts about the model\<close>

text \<open>\<open>includes_str\<close> decides the contiguous-sublist relation of the list library.\<close>

lemma includes_str_sublist: "includes_str s t \<longleftrightarrow> sublist t s"
  by (induction s) (auto simp: sublist_Cons_right)

lemma sublist_map_iff: "sublist t (map f s) \<longleftrightarrow> (\<exists>u. sublist u s \<and> map f u = t)"
proof
  assume "sublist t (map f s)"
  then obtain ps ss where "map f s = ps @ t @ ss"
    by (auto simp: sublist_def)
  then obtain ps' r where s: "s = ps' @ r" and r: "t @ ss = map f r"
    unfolding map_eq_append_conv by blast
  from r obtain u ss' where "r = u @ ss'" and "t = map f u"
    unfolding append_eq_map_conv by blast
  with s have "sublist u s \<and> map f u = t"
    by (auto simp: sublist_def)
  then show "\<exists>u. sublist u s \<and> map f u = t" ..
next
  assume "\<exists>u. sublist u s \<and> map f u = t"
  then obtain u ps ss where "s = ps @ u @ ss" and "map f u = t"
    by (auto simp: sublist_def)
  then have "map f s = map f ps @ t @ map f ss"
    by simp
  then show "sublist t (map f s)"
    unfolding sublist_def by blast
qed

lemma truthy_iff: "truthy n \<longleftrightarrow> n \<noteq> NaN \<and> n \<noteq> Fin 0"
  by (cases n) auto

text \<open>
  The binary64 values of the literals \<^verbatim>\<open>0.1\<close>, \<^verbatim>\<open>23.9\<close> and \<^verbatim>\<open>24.1\<close>:
  \<open>0.1\<close> lies a little above one tenth, \<open>23.9\<close> a little below and \<open>24.1\<close> a
  little above their decimal readings.
\<close>

lemma fl_tenth: "fl (1/10) = Fin (3602879701896397 / 36028797018963968)"
  by code_simp

lemma fl_23_9: "fl (239/10) = Fin (3363625971692339 / 140737488355328)"
  by code_simp

lemma fl_24_1: "fl (241/10) = Fin (3391773469363405 / 140737488355328)"
  by code_simp

text \<open>Integers below \<open>2^53\<close> are binary64 values: rounding leaves them as they are.\<close>

lemma round_half_even_int: "round_half_even (of_int n) = n"
  by (simp add: round_half_even_def)

lemma fl_int_exact:
  assumes "0 \<le> n" and "n < 9007199254740992"
  shows "fl (of_int n) = Fin (of_int n)"
proof (cases "n = 0")
  case True
  then show ?thesis
    by (simp add: fl_def)
next
  case False
  with assms(1) have pos: "0 < n"
    by simp
  define k where "k = bitlen n - 1"
  from pos have k0: "0 \<le> k"
    using bitlen_ge_iff_power [of 1 n] by (simp add: k_def)
  have "bitlen n \<le> 53"
    using assms(2) by (simp add: bitlen_le_iff_power)
  then have k52: "k \<le> 52"
    by (simp add: k_def)
  have one: "(1::rat) \<le> of_int n"
    using pos by simp
  have il: "ilog2 (of_int n) = k"
    using one by (simp add: ilog2_def k_def)
  define j where "j = nat (52 - k)"
  have e: "max (k - 52) (- 1074) = - int j"
    using k0 k52 by (simp add: j_def)
  have p: "pow2 (- int j) = 1 / 2 ^ j"
    by (cases "j = 0") (simp_all add: pow2_def)
  have m: "round_half_even (of_int n / pow2 (- int j)) = n * 2 ^ j"
  proof -
    have "(of_int n :: rat) / pow2 (- int j) = of_int (n * 2 ^ j)"
      by (simp add: p)
    then show ?thesis
      by (simp only: round_half_even_int)
  qed
  have nz: "(of_int n :: rat) \<noteq> 0" and ab: "\<bar>of_int n :: rat\<bar> = of_int n"
    and sg: "sgn (of_int n :: rat) = 1"
    using pos by simp_all
  have v: "(1::rat) * of_int (n * 2 ^ j) * pow2 (- int j) = of_int n"
    by (simp add: p)
  show ?thesis
    unfolding fl_def Let_def ab il e m sg using nz v by simp
qed

text \<open>
  On two literals around a slash \<^verbatim>\<open>eval\<close> returns the quotient, rounded once.
\<close>

lemma digit_not_slash: "is_digit c \<Longrightarrow> c \<noteq> CHR ''/''"
  by (auto simp: is_digit_def)

lemma literal_digits: "is_literal a \<Longrightarrow> list_all is_digit a \<and> a \<noteq> []"
  by (auto simp: is_literal_def split: list.splits)

lemma literal_not_call: "is_literal a \<Longrightarrow> a @ r \<noteq> ''Date.now()''"
  by (cases a) (auto simp: is_literal_def is_digit_def)

lemma js_eval_ratio:
  assumes "is_literal a" and "is_literal b"
  shows "js_eval w (a @ ''/'' @ b) = Some (Returns (js_div (literal_value a) (literal_value b)))"
proof -
  from assms(1) have d: "\<And>c. c \<in> set a \<Longrightarrow> c \<noteq> CHR ''/''"
    using literal_digits [of a] digit_not_slash by (auto simp: list_all_iff)
  have t: "takeWhile (\<lambda>c. c \<noteq> CHR ''/'') (a @ ''/'' @ b) = a"
    using d by (simp add: takeWhile_append2)
  have r: "dropWhile (\<lambda>c. c \<noteq> CHR ''/'') (a @ ''/'' @ b) = ''/'' @ b"
    using d by (simp add: dropWhile_append2)
  from assms(2) have "b \<noteq> []"
    using literal_digits [of b] by simp
  with assms t r literal_not_call [OF assms(1), of "''/'' @ b"] show ?thesis
    by (simp add: js_eval_def Let_def)
qed

text \<open>Within the fragment only \<^verbatim>\<open>Date.now()\<close> reads the clock.\<close>

lemma js_eval_ignores_clock: "s \<noteq> ''Date.now()'' \<Longrightarrow> js_eval w s = js_eval w' s"
  by (simp add: js_eval_def)

subsection \<open>The six criteria, one by one\<close>

lemma fileSize_valid:
  "valid (fileSize_result (validateVideoSpecs rt v)) = js_le (fileSize v) (maxFileSize criteria)"
  by (simp add: validateVideoSpecs_def Let_def)

lemma maxFileSize_value: "maxFileSize criteria = Fin 104857600"
  by code_simp

lemma format_valid:
  "valid (format_result (validateVideoSpecs rt v)) =
     list_ex (\<lambda>fmt. includes_str (toLowerCase (format v)) fmt \<or> includes_str (mimeType v) fmt)
       [''mp4'', ''mov'', ''quicktime'']"
  by (simp add: validateVideoSpecs_def Let_def criteria_def)

lemma format_value:
  "value' (format_result (validateVideoSpecs rt v)) = JStr (getFormatName (format v) (mimeType v))"
  by (simp add: validateVideoSpecs_def Let_def)

lemma resolution_valid:
  "valid (resolution_result (validateVideoSpecs rt v)) =
     list_ex (\<lambda>res. js_seq (res_width res) (width v) \<and> js_seq (res_height res) (height v))
       (resolutions criteria)"
  by (simp add: validateVideoSpecs_def Let_def)

lemma frameRate_valid:
  "valid (frameRate_result (validateVideoSpecs rt v)) =
     js_le (Math_abs (js_sub (frameRate v) (Fin 24))) (fl (1/10))"
  by (simp add: validateVideoSpecs_def Let_def criteria_def)

lemma frameCount_valid:
  "valid (frameCount_result (validateVideoSpecs rt v)) =
     js_le (Math_abs (js_sub (frameCount v) (Fin 144))) (Fin 2)"
  by (simp add: validateVideoSpecs_def Let_def criteria_def)

lemma codec_valid:
  "valid (codec_result (validateVideoSpecs rt v)) =
     list_ex (\<lambda>cd. includes_str (toLowerCase (codec v)) (toLowerCase cd)
                  \<or> includes_str (toLowerCase (codec v)) ''avc''
                  \<or> includes_str (toLowerCase (codec v)) ''hevc'') [''h264'', ''hevc'', ''h265'']"
  by (simp add: validateVideoSpecs_def Let_def criteria_def)

lemma codec_value:
  "value' (codec_result (validateVideoSpecs rt v)) = JStr (getCodecName (codec v))"
  by (simp add: validateVideoSpecs_def Let_def)

lemma overall_eq:
  "overall (validateVideoSpecs rt v) \<longleftrightarrow>
     valid (fileSize_result (validateVideoSpecs rt v)) \<and>
     valid (format_result (validateVideoSpecs rt v)) \<and>
     valid (resolution_result (validateVideoSpecs rt v)) \<and>
     valid (frameRate_result (validateVideoSpecs rt v)) \<and>
     valid (frameCount_result (validateVideoSpecs rt v)) \<and>
     valid (codec_result (validateVideoSpecs rt v))"
  by (simp add: validateVideoSpecs_def Let_def)

lemma codec_of_update: "codec (v\<lparr>codec := c\<rparr>) = c"
  by simp

lemma frameRate_of_update: "frameRate (v\<lparr>frameRate := x\<rparr>) = x"
  by simp

lemma fileSize_of_update: "fileSize (v\<lparr>fileSize := x\<rparr>) = x"
  by simp

subsection \<open>Evaluations\<close>

lemma codec_rule_avc1:
  "list_ex (\<lambda>cd. includes_str (toLowerCase ''avc1'') (toLowerCase cd)
                  \<or> includes_str (toLowerCase ''avc1'') ''avc''
                  \<or> includes_str (toLowerCase ''avc1'') ''hevc'') [''h264'', ''hevc'', ''h265''] = True"
  by code_simp

lemma codec_rule_hvc1:
  "list_ex (\<lambda>cd. includes_str (toLowerCase ''hvc1'') (toLowerCase cd)
                  \<or> includes_str (toLowerCase ''hvc1'') ''avc''
                  \<or> includes_str (toLowerCase ''hvc1'') ''hevc'') [''h264'', ''hevc'', ''h265''] = False"
  by code_simp

lemma codec_rule_vp9:
  "list_ex (\<lambda>cd. includes_str (toLowerCase ''vp9'') (toLowerCase cd)
                  \<or> includes_str (toLowerCase ''vp9'') ''avc''
                  \<or> includes_str (toLowerCase ''vp9'') ''hevc'') [''h264'', ''hevc'', ''h265''] = False"
  by code_simp

lemma codec_name_avc1: "getCodecName ''avc1'' = ''H.264''"
  by code_simp

lemma codec_name_hvc1: "getCodecName ''hvc1'' = ''H.265''"
  by code_simp

lemma codec_name_vp9: "getCodecName ''vp9'' = ''VP9''"
  by code_simp

lemma tolerance_23_9: "js_le (Math_abs (js_sub (fl (239/10)) (Fin 24))) (fl (1/10)) = False"
  by code_simp

lemma tolerance_23_89: "js_le (Math_abs (js_sub (fl (2389/100)) (Fin 24))) (fl (1/10)) = False"
  by code_simp

lemma tolerance_24_1: "js_le (Math_abs (js_sub (fl (241/10)) (Fin 24))) (fl (1/10)) = False"
  by code_simp

lemma tolerance_24_11: "js_le (Math_abs (js_sub (fl (2411/100)) (Fin 24))) (fl (1/10)) = False"
  by code_simp

lemma tolerance_23_98: "js_le (Math_abs (js_sub (fl (2398/100)) (Fin 24))) (fl (1/10)) = True"
  by code_simp

lemma tolerance_24: "js_le (Math_abs (js_sub (Fin 24) (Fin 24))) (fl (1/10)) = True"
  by code_simp

lemma sample_full_fields:
  "fileSize (sample_full b) = b"
  "format (sample_full b) = ''mov,mp4,m4a,3gp,3g2,mj2''"
  "mimeType (sample_full b) = ''video/mp4''"
  "width (sample_full b) = Fin 1920"
  "height (sample_full b) = Fin 810"
  "frameRate (sample_full b) = Fin 24"
  "frameCount (sample_full b) = Fin 144"
  "codec (sample_full b) = ''h264''"
  by (simp_all add: sample_full_def)

lemma sample_full_format: "valid (format_result (validateVideoSpecs rt (sample_full b)))"
  unfolding format_valid sample_full_fields by code_simp

lemma sample_full_resolution: "valid (resolution_result (validateVideoSpecs rt (sample_full b)))"
  unfolding resolution_valid sample_full_fields by code_simp

lemma sample_full_frameRate: "valid (frameRate_result (validateVideoSpecs rt (sample_full b)))"
  unfolding frameRate_valid sample_full_fields by (simp only: tolerance_24)

lemma sample_full_frameCount: "valid (frameCount_result (validateVideoSpecs rt (sample_full b)))"
  unfolding frameCount_valid sample_full_fields by code_simp

lemma sample_full_codec: "valid (codec_result (validateVideoSpecs rt (sample_full b)))"
  unfolding codec_valid sample_full_fields by code_simp

lemma sample_full_fileSize:
  "valid (fileSize_result (validateVideoSpecs rt (sample_full (Fin r)))) \<longleftrightarrow> r \<le> 104857600"
  unfolding fileSize_valid sample_full_fields maxFileSize_value by simp

lemma upper_mime_fields: "format upper_mime = ''avi''" "mimeType upper_mime = ''VIDEO/MP4''"
  by (simp_all add: upper_mime_def)

lemma upper_mime_code:
  "list_ex (\<lambda>fmt. includes_str (toLowerCase ''avi'') fmt \<or> includes_str ''VIDEO/MP4'' fmt)
     [''mp4'', ''mov'', ''quicktime''] = False"
  by code_simp

lemma upper_mime_claimed: "claimed_format_valid ''avi'' ''VIDEO/MP4'' = True"
  by code_simp

text \<open>
  Normalisation of the sample probe output for several frame-rate strings: the ratio
  \<^verbatim>\<open>24000/1001\<close>, the ratio \<^verbatim>\<open>239/10\<close>, a number with no slash, a call of
  \<^verbatim>\<open>Date.now()\<close> at two clock readings, and a ratio with a lone slash.
\<close>

lemma sample_ntsc:
  "analyzeVideoWithFFmpeg \<lparr>now = 1762000000000\<rparr> (Probed (sample_metadata ''24000/1001'' None))
     = Some (Inr (sample_info (fl (2398/100)) (Fin 144)))"
  by code_simp

lemma sample_23_9:
  "analyzeVideoWithFFmpeg \<lparr>now = 1762000000000\<rparr> (Probed (sample_metadata ''239/10'' None))
     = Some (Inr (sample_info (fl (239/10)) (Fin 143)))"
  by code_simp

lemma sample_no_slash:
  "analyzeVideoWithFFmpeg \<lparr>now = 1762000000000\<rparr> (Probed (sample_metadata ''24'' None))
     = Some (Inr (sample_info (Fin 24) (Fin 144)))"
  by code_simp

lemma sample_date_now:
  "analyzeVideoWithFFmpeg \<lparr>now = 1762000000000\<rparr> (Probed (sample_metadata ''Date.now()'' None))
     = Some (Inr (sample_info (Fin 1762000000000) (Fin 10572000000000)))"
  by code_simp

lemma sample_date_now_later:
  "analyzeVideoWithFFmpeg \<lparr>now = 1762000000001\<rparr> (Probed (sample_metadata ''Date.now()'' None))
     = Some (Inr (sample_info (Fin 1762000000001) (Fin 10572000000006)))"
  by code_simp

lemma sample_lone_slash:
  "analyzeVideoWithFFmpeg \<lparr>now = 1762000000000\<rparr> (Probed (sample_metadata ''24/'' None))
     = Some (Inl ParseError)"
  by code_simp

lemma sample_negative_count:
  "analyzeVideoWithFFmpeg \<lparr>now = 1762000000000\<rparr> (Probed (sample_metadata ''24/1'' (Some ''-5'')))
     = Some (Inr (sample_info (Fin 24) (Fin (- 5))))"
  by code_simp

lemma claimed_negative_count:
  "claimed_frameCount (parseInt (Some ''-5'')) (parseFloat (Some ''6.000000'')) (Fin 24) = Fin 144"
  by code_simp

section \<open>The claims\<close>

subsection \<open>C1: the frame-rate string\<close>

text \<open>
  C1 asks that the frame-rate field be read strictly as two integers around a slash,
  that any other string make normalisation fail, and that the string never be run as
  code. The code hands the string to \<^verbatim>\<open>eval\<close>. A ratio of two literals does give
  the quotient (\<open>js_eval_ratio\<close>; 23.98 for \<^verbatim>\<open>24000/1001\<close>), but a string with no slash
  is accepted as well, and the string \<^verbatim>\<open>Date.now()\<close> is executed: normalisation
  resolves with the clock reading as the frame rate instead of failing.
\<close>

theorem frame_rate_string_is_executed:
  "analyzeVideoWithFFmpeg \<lparr>now = 1762000000000\<rparr> (Probed (sample_metadata ''24000/1001'' None))
     = Some (Inr (sample_info (fl (2398/100)) (Fin 144)))
   \<and> analyzeVideoWithFFmpeg \<lparr>now = 1762000000000\<rparr> (Probed (sample_metadata ''24'' None))
     = Some (Inr (sample_info (Fin 24) (Fin 144)))
   \<and> analyzeVideoWithFFmpeg \<lparr>now = 1762000000000\<rparr> (Probed (sample_metadata ''Date.now()'' None))
     = Some (Inr (sample_info (Fin 1762000000000) (Fin 10572000000000)))"
  by (simp only: sample_ntsc sample_no_slash sample_date_now simp_thms)

subsection \<open>C2: the codec criterion\<close>

text \<open>
  C2 asks that \<^verbatim>\<open>avc1\<close> be valid and shown as H.264, that \<^verbatim>\<open>hvc1\<close> be valid and shown
  as H.265, and that \<^verbatim>\<open>vp9\<close> be invalid and shown as VP9. The code does all of this
  but one thing: \<^verbatim>\<open>hvc1\<close> is shown as H.265 and yet judged invalid, since the validity
  test looks for \<^verbatim>\<open>h264\<close>, \<^verbatim>\<open>hevc\<close>, \<^verbatim>\<open>h265\<close> and \<^verbatim>\<open>avc\<close> only.
\<close>

theorem codec_avc1_hvc1_vp9:
  "valid (codec_result (validateVideoSpecs rt (v\<lparr>codec := ''avc1''\<rparr>)))
   \<and> value' (codec_result (validateVideoSpecs rt (v\<lparr>codec := ''avc1''\<rparr>))) = JStr ''H.264''
   \<and> \<not> valid (codec_result (validateVideoSpecs rt (v\<lparr>codec := ''hvc1''\<rparr>)))
   \<and> value' (codec_result (validateVideoSpecs rt (v\<lparr>codec := ''hvc1''\<rparr>))) = JStr ''H.265''
   \<and> \<not> valid (codec_result (validateVideoSpecs rt (v\<lparr>codec := ''vp9''\<rparr>)))
   \<and> value' (codec_result (validateVideoSpecs rt (v\<lparr>codec := ''vp9''\<rparr>))) = JStr ''VP9''"
  by (simp only: codec_valid codec_value codec_of_update codec_rule_avc1 codec_rule_hvc1
      codec_rule_vp9 codec_name_avc1 codec_name_hvc1 codec_name_vp9 simp_thms)

subsection \<open>C3: the frame-rate tolerance\<close>

text \<open>
  C3 asks that the frame-rate criterion hold exactly when the rate is within 0.1 of 24,
  both ends included: 23.9 and 24.1 valid, 23.89 and 24.11 invalid. The code compares
  \<^verbatim>\<open>Math.abs(frameRate - 24) <= 0.1\<close> in binary64 arithmetic, where the Number 23.9
  lies below and the Number 24.1 above its decimal reading by more than the Number 0.1
  exceeds one tenth. All four rates are judged invalid; 23.98 and 24 are valid.
\<close>

theorem frameRate_boundaries_rejected:
  "\<not> valid (frameRate_result (validateVideoSpecs rt (v\<lparr>frameRate := fl (239/10)\<rparr>)))
   \<and> \<not> valid (frameRate_result (validateVideoSpecs rt (v\<lparr>frameRate := fl (2389/100)\<rparr>)))
   \<and> \<not> valid (frameRate_result (validateVideoSpecs rt (v\<lparr>frameRate := fl (241/10)\<rparr>)))
   \<and> \<not> valid (frameRate_result (validateVideoSpecs rt (v\<lparr>frameRate := fl (2411/100)\<rparr>)))
   \<and> valid (frameRate_result (validateVideoSpecs rt (v\<lparr>frameRate := fl (2398/100)\<rparr>)))
   \<and> valid (frameRate_result (validateVideoSpecs rt (v\<lparr>frameRate := Fin 24\<rparr>)))"
  by (simp only: frameRate_valid frameRate_of_update tolerance_23_9 tolerance_23_89
      tolerance_24_1 tolerance_24_11 tolerance_23_98 tolerance_24 simp_thms)

subsection \<open>C4: determinism\<close>

text \<open>
  C4 asks that normalisation and validation give the same records whenever they run on
  the same raw probe input, whatever the frame-rate string, with no dependence on the
  clock. Because the frame-rate string is run by \<^verbatim>\<open>eval\<close>, the probe output whose
  frame rate reads \<^verbatim>\<open>Date.now()\<close> gives different answers at two clock readings one
  millisecond apart, for the same upload.
\<close>

theorem response_depends_on_clock:
  "analyze_video \<lparr>now = 1762000000000\<rparr> rt file (Probed (sample_metadata ''Date.now()'' None))
   \<noteq> analyze_video \<lparr>now = 1762000000001\<rparr> rt file (Probed (sample_metadata ''Date.now()'' None))"
  by (simp add: analyze_video_def sample_date_now sample_date_now_later sample_info_def Let_def)

subsection \<open>C5: the format criterion\<close>

text \<open>
  C5 as stated, with the MIME type matched without regard to case, fails: an AVI
  container uploaded with the MIME type \<^verbatim>\<open>VIDEO/MP4\<close> is judged invalid by the code,
  valid by the claim.
\<close>

theorem mime_type_match_is_case_sensitive:
  "valid (format_result (validateVideoSpecs rt_stub upper_mime))
     \<noteq> claimed_format_valid (format upper_mime) (mimeType upper_mime)"
  by (simp only: format_valid upper_mime_fields upper_mime_code upper_mime_claimed simp_thms)

text \<open>
  C5, amended: the format criterion is valid if and only if, for one of the tokens
  \<^verbatim>\<open>mp4\<close>, \<^verbatim>\<open>mov\<close>, \<^verbatim>\<open>quicktime\<close>, the container format has a substring that is
  the token up to the case of its letters, or the MIME type has the token itself as a
  substring.
\<close>

theorem format_rule:
  "valid (format_result (validateVideoSpecs rt v)) \<longleftrightarrow>
     (\<exists>tok \<in> set [''mp4'', ''mov'', ''quicktime''].
        (\<exists>u. sublist u (format v) \<and> toLowerCase u = tok) \<or> sublist tok (mimeType v))"
  by (simp add: format_valid includes_str_sublist toLowerCase_def sublist_map_iff)

theorem format_rule_witness:
  "valid (format_result (validateVideoSpecs rt_stub quicktime_upload))"
proof -
  have "includes_str (mimeType quicktime_upload) ''quicktime''"
    unfolding quicktime_upload_def by code_simp
  then have "sublist ''quicktime'' (mimeType quicktime_upload)"
    by (simp only: includes_str_sublist)
  then show ?thesis
    using format_rule [of rt_stub quicktime_upload] by simp
qed

subsection \<open>C6: the overall verdict\<close>

text \<open>
  C6: for every record the overall verdict is true if and only if all six criteria are
  valid; and a record that meets every rule except that its size is 200 MB gets the
  overall verdict false, with the file size the only invalid criterion.
\<close>

theorem overall_is_conjunction:
  "(overall (validateVideoSpecs rt v) \<longleftrightarrow>
      valid (resolution_result (validateVideoSpecs rt v))
      \<and> valid (format_result (validateVideoSpecs rt v))
      \<and> valid (fileSize_result (validateVideoSpecs rt v))
      \<and> valid (frameRate_result (validateVideoSpecs rt v))
      \<and> valid (frameCount_result (validateVideoSpecs rt v))
      \<and> valid (codec_result (validateVideoSpecs rt v)))
   \<and> \<not> overall (validateVideoSpecs rt (sample_full (Fin 209715200)))
   \<and> \<not> valid (fileSize_result (validateVideoSpecs rt (sample_full (Fin 209715200))))
   \<and> valid (resolution_result (validateVideoSpecs rt (sample_full (Fin 209715200))))
   \<and> valid (format_result (validateVideoSpecs rt (sample_full (Fin 209715200))))
   \<and> valid (frameRate_result (validateVideoSpecs rt (sample_full (Fin 209715200))))
   \<and> valid (frameCount_result (validateVideoSpecs rt (sample_full (Fin 209715200))))
   \<and> valid (codec_result (validateVideoSpecs rt (sample_full (Fin 209715200))))"
proof -
  have "\<not> valid (fileSize_result (validateVideoSpecs rt (sample_full (Fin 209715200))))"
    by (simp add: sample_full_fileSize)
  then show ?thesis
    using overall_eq [of rt v] overall_eq [of rt "sample_full (Fin 209715200)"]
      sample_full_resolution [of rt] sample_full_format [of rt] sample_full_frameRate [of rt]
      sample_full_frameCount [of rt] sample_full_codec [of rt]
    by blast
qed

subsection \<open>C7: the size limit\<close>

text \<open>
  C7: the file-size criterion is valid if and only if the size is at most 104857600
  bytes, and a size of exactly 104857600 passes.
\<close>

theorem fileSize_limit_inclusive:
  "(valid (fileSize_result (validateVideoSpecs rt (v\<lparr>fileSize := Fin r\<rparr>))) \<longleftrightarrow> r \<le> 104857600)
   \<and> valid (fileSize_result (validateVideoSpecs rt (v\<lparr>fileSize := Fin 104857600\<rparr>)))"
  by (simp only: fileSize_valid maxFileSize_value fileSize_of_update js_le.simps simp_thms)

subsection \<open>C8: the frame count\<close>

text \<open>
  C8 as stated, with the explicit count used only when it is greater than 0, fails: a
  stream that reports the count \<^verbatim>\<open>-5\<close> is normalised to the frame count \<open>-5\<close>, where
  the claim has the rounded product of duration and frame rate, 144.
\<close>

theorem negative_frame_count_kept:
  "analyzeVideoWithFFmpeg \<lparr>now = 1762000000000\<rparr> (Probed (sample_metadata ''24/1'' (Some ''-5'')))
     = Some (Inr (sample_info (Fin 24) (Fin (- 5))))
   \<and> frameCount (sample_info (Fin 24) (Fin (- 5)))
     \<noteq> claimed_frameCount (parseInt (Some ''-5'')) (parseFloat (Some ''6.000000'')) (Fin 24)"
  by (simp add: sample_negative_count claimed_negative_count sample_info_def)

text \<open>
  C8, amended: for every raw probe record with a video stream whose frame-rate string
  evaluates to a Number, normalisation succeeds, and the frame count of the result is
  the stream's explicit frame count when that count is present (\<^verbatim>\<open>parseInt\<close> reads a
  Number from it) and is not zero, and otherwise \<^verbatim>\<open>Math.round\<close> of the product of
  the unrounded duration and the unrounded frame rate.
\<close>

theorem frameCount_explicit_or_computed:
  assumes "find (\<lambda>s. codec_type s = ''video'') (streams md) = Some vs"
    and "js_eval w (r_frame_rate vs) = Some (Returns fr)"
  shows "\<exists>d. analyzeVideoWithFFmpeg w (Probed md) = Some (Inr d)
     \<and> (parseInt (nb_frames vs) \<noteq> NaN \<and> parseInt (nb_frames vs) \<noteq> Fin 0
          \<longrightarrow> frameCount d = parseInt (nb_frames vs))
     \<and> (parseInt (nb_frames vs) = NaN \<or> parseInt (nb_frames vs) = Fin 0
          \<longrightarrow> frameCount d = Math_round (js_mul (parseFloat (duration_raw (format_raw md))) fr))"
  using assms by (simp add: analyzeVideoWithFFmpeg_def Let_def truthy_iff)

theorem frameCount_explicit_or_computed_witness:
  "find (\<lambda>s. codec_type s = ''video'') (streams (sample_metadata ''24000/1001'' None))
     = Some (sample_stream ''24000/1001'' None)
   \<and> js_eval \<lparr>now = 1762000000000\<rparr> (r_frame_rate (sample_stream ''24000/1001'' None))
     = Some (Returns (fl (24000/1001)))
   \<and> (\<exists>d. analyzeVideoWithFFmpeg \<lparr>now = 1762000000000\<rparr>
             (Probed (sample_metadata ''24000/1001'' None)) = Some (Inr d)
          \<and> frameCount d = Fin 144)"
proof -
  have h1: "find (\<lambda>s. codec_type s = ''video'') (streams (sample_metadata ''24000/1001'' None))
     = Some (sample_stream ''24000/1001'' None)"
    by code_simp
  have h2: "js_eval \<lparr>now = 1762000000000\<rparr> (r_frame_rate (sample_stream ''24000/1001'' None))
     = Some (Returns (fl (24000/1001)))"
    by code_simp
  have h3: "parseInt (nb_frames (sample_stream ''24000/1001'' None)) = NaN"
    by code_simp
  have h4: "Math_round (js_mul
       (parseFloat (duration_raw (format_raw (sample_metadata ''24000/1001'' None))))
       (fl (24000/1001))) = Fin 144"
    by code_simp
  from frameCount_explicit_or_computed [OF h1 h2] h3 h4
  have "\<exists>d. analyzeVideoWithFFmpeg \<lparr>now = 1762000000000\<rparr>
             (Probed (sample_metadata ''24000/1001'' None)) = Some (Inr d)
          \<and> frameCount d = Fin 144"
    by auto
  with h1 h2 show ?thesis
    by (simp only: simp_thms)
qed

subsection \<open>C9: the type of the displayed value\<close>

text \<open>
  C9 asks that the \<^verbatim>\<open>value\<close> of every criterion be a display string, that of the
  frame count in particular. The code builds a string for resolution, format, file
  size, frame rate and codec, and stores the frame count itself, a Number, for the
  frame-count criterion.
\<close>

theorem frameCount_value_is_number:
  "is_string (value' (resolution_result (validateVideoSpecs rt v)))
   \<and> is_string (value' (format_result (validateVideoSpecs rt v)))
   \<and> is_string (value' (fileSize_result (validateVideoSpecs rt v)))
   \<and> is_string (value' (frameRate_result (validateVideoSpecs rt v)))
   \<and> is_string (value' (codec_result (validateVideoSpecs rt v)))
   \<and> \<not> is_string (value' (frameCount_result (validateVideoSpecs rt v)))
   \<and> value' (frameCount_result (validateVideoSpecs rt v)) = JNum (frameCount v)"
  by (simp add: validateVideoSpecs_def Let_def)

subsection \<open>C10: the name shown for a container with several aliases\<close>

text \<open>
  C10: when the container format contains, without regard to case, the token \<^verbatim>\<open>mp4\<close>
  and also \<^verbatim>\<open>mov\<close> or \<^verbatim>\<open>quicktime\<close>, the format is displayed as MP4, whatever the
  MIME type: the test for \<^verbatim>\<open>mp4\<close> comes first.
\<close>

theorem mp4_is_named_first:
  assumes "includes_str (toLowerCase (format v)) ''mp4''"
    and "includes_str (toLowerCase (format v)) ''mov''
         \<or> includes_str (toLowerCase (format v)) ''quicktime''"
  shows "value' (format_result (validateVideoSpecs rt v)) = JStr ''MP4''"
  using assms(1) by (simp add: format_value getFormatName_def)

theorem mp4_is_named_first_witness:
  "includes_str (toLowerCase (format quicktime_upload)) ''mp4''
   \<and> includes_str (toLowerCase (format quicktime_upload)) ''mov''
   \<and> mimeType quicktime_upload = ''video/quicktime''
   \<and> value' (format_result (validateVideoSpecs rt_stub quicktime_upload)) = JStr ''MP4''"
proof -
  have a: "includes_str (toLowerCase (format quicktime_upload)) ''mp4''"
    unfolding quicktime_upload_def by code_simp
  have b: "includes_str (toLowerCase (format quicktime_upload)) ''mov''"
    unfolding quicktime_upload_def by code_simp
  have c: "mimeType quicktime_upload = ''video/quicktime''"
    by (simp add: quicktime_upload_def)
  from a b have "value' (format_result (validateVideoSpecs rt_stub quicktime_upload)) = JStr ''MP4''"
    by (intro mp4_is_named_first disjI1)
  with a b c show ?thesis
    by (simp only: simp_thms)
qed

end
